theory Spec2Isabelle
  imports Complex_Main "HOL-Library.Sublist"
begin

section \<open>Transport log: session tracking and outbox synchronisation\<close>

text \<open>
  A shallow embedding of \<^verbatim>\<open>src/geo.ts\<close>, \<^verbatim>\<open>src/db.ts\<close> and the session and
  synchronisation functions of \<^verbatim>\<open>src/main.ts\<close>.

  Conventions of the embedding.
  \<^item> A JavaScript \<^verbatim>\<open>number\<close> that holds a measurement (latitude, distance, litres, cost)
    is a \<^typ>\<open>real\<close>: arithmetic is exact, the rounding of IEEE doubles is not modelled,
    with one exception. The value NaN is modelled where the source produces or tests it:
    \<^verbatim>\<open>parseFloat\<close> yields \<^typ>\<open>real option\<close> (\<open>None\<close> is NaN), and so does the distance
    function, whose \<^verbatim>\<open>Math.sqrt\<close> of a negative number is NaN. The exception: in exact
    arithmetic the haversine term lies in \<open>[0, 1]\<close>, in double arithmetic it can round
    above 1 (for points nearly opposite on the globe), and then the distance is NaN. Where
    the program branches on the distance, the pairs of points at which this happens are a
    parameter of the model (\<open>roundsToNaN\<close>).
  \<^item> The first component of a handler's result is what the invocation signals: \<open>None\<close>
    when it returns without an alert or an exception (also when it returns early at a
    guard), the error otherwise.
  \<^item> Timestamps (\<^verbatim>\<open>Date.now()\<close>, milliseconds) are \<^typ>\<open>int\<close>.
  \<^item> An optional field \<^verbatim>\<open>f?: T\<close> is a \<open>T option\<close>; \<open>None\<close> is \<^verbatim>\<open>undefined\<close>.
  \<^item> The module-level variables \<^verbatim>\<open>currentSession\<close> and \<^verbatim>\<open>appConfig\<close> and the two
    IndexedDB object stores form the record \<open>app\<close>, passed in and returned.
  \<^item> Everything a function reads from the browser during one invocation is its
    environment \<open>env\<close>: the clock, \<^verbatim>\<open>navigator.onLine\<close>, the outcome of
    \<^verbatim>\<open>getCurrentPositionOrPrompt\<close>, the watch handle, and the replies of the remote
    endpoint. All readings of the clock within one invocation are the same instant.
  \<^item> The functions run to completion one after the other (no interleaving at an
    \<^verbatim>\<open>await\<close>), and the IndexedDB transactions themselves do not fail except by a key
    that is already present.
\<close>

subsection \<open>geo.ts\<close>

record Coordinate =
  lat :: real
  lng :: real
  timestamp :: int

definition EARTH_RADIUS_KM :: real where
  "EARTH_RADIUS_KM = 6371"

definition toRadians :: "real \<Rightarrow> real" where
  "toRadians deg = (deg * pi) / 180"

text \<open>\<^verbatim>\<open>Math.atan2(y, x)\<close>, the angle of the point \<open>(x, y)\<close>, in \<open>(-\<pi>, \<pi>]\<close>.\<close>

definition atan2 :: "real \<Rightarrow> real \<Rightarrow> real" where
  "atan2 y x =
     (if 0 < x then arctan (y / x)
      else if x < 0 then (if 0 \<le> y then arctan (y / x) + pi else arctan (y / x) - pi)
      else if 0 < y then pi / 2
      else if y < 0 then - (pi / 2)
      else 0)"

text \<open>
  \<^verbatim>\<open>haversineDistance\<close>, in kilometres. \<^verbatim>\<open>Math.sqrt\<close> of a negative number is NaN,
  which propagates to the result: \<open>None\<close>.
\<close>

definition haversineDistance :: "Coordinate \<Rightarrow> Coordinate \<Rightarrow> real option" where
  "haversineDistance a b =
     (let dLat = toRadians (lat b - lat a);
          dLon = toRadians (lng b - lng a);
          lat1 = toRadians (lat a);
          lat2 = toRadians (lat b);
          h = (sin (dLat / 2))\<^sup>2 + (sin (dLon / 2))\<^sup>2 * cos lat1 * cos lat2
      in if h < 0 \<or> 1 < h then None
         else Some (EARTH_RADIUS_KM * (2 * atan2 (sqrt h) (sqrt (1 - h)))))"


subsection \<open>db.ts\<close>

text \<open>
  \<^verbatim>\<open>LogRecord\<close>. The fields \<^verbatim>\<open>id\<close> and \<^verbatim>\<open>note\<close> are named \<open>log_id\<close> and \<open>note_text\<close> here.
\<close>

record LogRecord =
  log_id :: "nat option"
  date :: string
  departureName :: "string option"
  arrivalName :: "string option"
  departureTime :: string
  arrivalTime :: "string option"
  drivingMinutes :: int
  breakMinutes :: int
  distanceKm :: real
  fuelLitres :: real
  fuelCost :: real
  departureLat :: real
  departureLng :: real
  arrivalLat :: real
  arrivalLng :: real
  note_text :: "string option"

text \<open>
  An object store created with \<^verbatim>\<open>{ keyPath: 'id', autoIncrement: true }\<close>: its rows in
  ascending key order (the order in which \<^verbatim>\<open>getAll()\<close> returns them) and the next value
  of its key generator. Each of the two stores has a key generator of its own.
\<close>

record object_store =
  nextKey :: nat
  rows :: "(nat \<times> LogRecord) list"

definition empty_store :: object_store where
  "empty_store = \<lparr>nextKey = 1, rows = []\<rparr>"

record database =
  logs :: object_store
  pending :: object_store

text \<open>
  \<^verbatim>\<open>objectStore.add(record)\<close>. A record without \<^verbatim>\<open>id\<close> gets the next generated key, which
  is also written into the stored copy; a record with an \<^verbatim>\<open>id\<close> is stored under it, and
  the request fails (\<open>None\<close>) when that key is present already.
\<close>

fun insert_row :: "nat \<times> LogRecord \<Rightarrow> (nat \<times> LogRecord) list \<Rightarrow> (nat \<times> LogRecord) list" where
  "insert_row kr [] = [kr]"
| "insert_row kr (x # xs) = (if fst kr < fst x then kr # x # xs else x # insert_row kr xs)"

definition store_add :: "LogRecord \<Rightarrow> object_store \<Rightarrow> object_store option" where
  "store_add r st =
     (case log_id r of
        None \<Rightarrow>
          Some \<lparr>nextKey = Suc (nextKey st),
                rows = rows st @ [(nextKey st, r\<lparr>log_id := Some (nextKey st)\<rparr>)]\<rparr>
      | Some k \<Rightarrow>
          if k \<in> fst ` set (rows st) then None
          else Some \<lparr>nextKey = max (nextKey st) (Suc k), rows = insert_row (k, r) (rows st)\<rparr>)"

definition store_clear :: "object_store \<Rightarrow> object_store" where
  "store_clear st = st\<lparr>rows := []\<rparr>"

definition store_delete :: "nat \<Rightarrow> object_store \<Rightarrow> object_store" where
  "store_delete k st = st\<lparr>rows := filter (\<lambda>kr. fst kr \<noteq> k) (rows st)\<rparr>"

text \<open>
  \<^verbatim>\<open>saveLog(record, pending)\<close>: one transaction over both stores; when a request fails the
  transaction is aborted and the promise rejects (\<open>None\<close>), with neither store changed.
\<close>

definition saveLog :: "LogRecord \<Rightarrow> bool \<Rightarrow> database \<Rightarrow> database option" where
  "saveLog r pend d =
     (case store_add r (logs d) of
        None \<Rightarrow> None
      | Some l \<Rightarrow>
          if pend then
            (case store_add r (pending d) of
               None \<Rightarrow> None
             | Some p \<Rightarrow> Some \<lparr>logs = l, pending = p\<rparr>)
          else Some (d\<lparr>logs := l\<rparr>))"

definition getAllLogs :: "database \<Rightarrow> LogRecord list" where
  "getAllLogs d = map snd (rows (logs d))"

definition getPendingLogs :: "database \<Rightarrow> LogRecord list" where
  "getPendingLogs d = map snd (rows (pending d))"

definition clearPendingLogs :: "database \<Rightarrow> database" where
  "clearPendingLogs d = d\<lparr>pending := store_clear (pending d)\<rparr>"

definition deleteLogById :: "nat \<Rightarrow> database \<Rightarrow> database" where
  "deleteLogById k d = \<lparr>logs = store_delete k (logs d), pending = store_delete k (pending d)\<rparr>"

subsection \<open>main.ts: state\<close>

text \<open>
  \<^verbatim>\<open>BreakLog\<close> and \<^verbatim>\<open>RestLog\<close> have the same fields. The field \<^verbatim>\<open>end\<close> is named
  \<open>end'\<close> here.
\<close>

record BreakLog =
  start :: int
  end' :: "int option"
  startLat :: "real option"
  startLng :: "real option"
  endLat :: "real option"
  endLng :: "real option"

type_synonym RestLog = BreakLog

text \<open>\<^verbatim>\<open>FuelEvent\<close>; its fields \<^verbatim>\<open>lat\<close> and \<^verbatim>\<open>lng\<close> are named \<open>fuelLat\<close> and \<open>fuelLng\<close>.\<close>

record FuelEvent =
  time :: int
  amount :: real
  cost :: "real option"
  fuelLat :: real
  fuelLng :: real

record SessionState =
  startTime :: int
  startCoord :: "Coordinate option"
  coords :: "Coordinate list"
  distance :: real
  breaks :: "BreakLog list"
  rests :: "RestLog list"
  fuelLogs :: "FuelEvent list"
  watchId :: "nat option"

record config =
  SHEETS_WEBAPP_URL :: "string option"
  OPENAI_API_KEY :: "string option"

text \<open>
  What the remote endpoint answers to one \<^verbatim>\<open>fetch\<close>: the request fails, or there is a
  response with its \<^verbatim>\<open>res.ok\<close> and what \<^verbatim>\<open>res.json()\<close> gives.
\<close>

datatype json_body =
    JsonInvalid
  | JsonFalsy
  | JsonObject bool

datatype reply =
    FetchRejected
  | Response bool json_body

text \<open>
  The state of the application: the two module-level variables, the database, and the
  list of all invocations of \<^verbatim>\<open>postLog\<close> so far, in order, each with whether it
  returned normally. The list stands for what the remote sink has seen.
\<close>

record app =
  currentSession :: "SessionState option"
  appConfig :: config
  db :: database
  posted :: "(LogRecord \<times> bool) list"

text \<open>What one invocation reads from the browser.\<close>

record env =
  now :: int
  online :: bool
  position :: "(real \<times> real) option"
  watch :: "nat option"
  net :: "nat \<Rightarrow> reply"

text \<open>
  Built-in functions of the platform that the source calls on numbers and strings; they
  are parameters of the model. The last field is the platform's double arithmetic as far
  as it is modelled: \<open>roundsToNaN pf a b\<close> says that the haversine term of \<open>a\<close> and \<open>b\<close>,
  computed in doubles, falls outside \<open>[0, 1]\<close>, so that \<^verbatim>\<open>haversineDistance(a, b)\<close> is NaN.
\<close>

record platform =
  parseFloat :: "string \<Rightarrow> real option"
  trim :: "string \<Rightarrow> string"
  toISOString :: "int \<Rightarrow> string"
  toFixed5 :: "real \<Rightarrow> string"
  numToString :: "real \<Rightarrow> string"
  intToString :: "int \<Rightarrow> string"
  roundsToNaN :: "Coordinate \<Rightarrow> Coordinate \<Rightarrow> bool"

text \<open>The value of \<^verbatim>\<open>haversineDistance(a, b)\<close> as the running program gets it.\<close>

definition computedDistance :: "platform \<Rightarrow> Coordinate \<Rightarrow> Coordinate \<Rightarrow> real option" where
  "computedDistance pf a b = (if roundsToNaN pf a b then None else haversineDistance a b)"

text \<open>
  What an invocation signals when it does not return silently. The source has no error
  classes; the names are those of the specification's taxonomy:
  \<^item> \<open>ValidationError\<close>: the input was refused with an alert and the function returned;
  \<^item> \<open>LocationUnavailableError\<close>: the position could not be obtained and the function
    gave up with an alert;
  \<^item> \<open>TypeError\<close>, \<open>StorageError\<close>, \<open>TransportError\<close>, \<open>ConfigurationError\<close>: an
    exception was thrown.
\<close>

datatype error =
    ValidationError
  | LocationUnavailableError
  | TypeError
  | StorageError
  | TransportError
  | ConfigurationError

definition falsy :: "string option \<Rightarrow> bool" where
  "falsy s = (case s of None \<Rightarrow> True | Some t \<Rightarrow> t = [])"

subsection \<open>main.ts: the session\<close>

text \<open>
  \<^verbatim>\<open>startSession\<close>. With a session present it returns at once. The new session is
  stored before \<^verbatim>\<open>watchPosition\<close> is called, so it stays when that call throws
  (\<open>watch e = None\<close>).
\<close>

definition startSession :: "env \<Rightarrow> app \<Rightarrow> error option \<times> app" where
  "startSession e a =
     (case currentSession a of
        Some s \<Rightarrow> (None, a)
      | None \<Rightarrow>
          (case position e of
             None \<Rightarrow> (Some LocationUnavailableError, a)
           | Some (la, lo) \<Rightarrow>
               (let coord = \<lparr>lat = la, lng = lo, timestamp = now e\<rparr>;
                    s = \<lparr>startTime = now e, startCoord = Some coord, coords = [coord],
                         distance = 0, breaks = [], rests = [], fuelLogs = [],
                         watchId = None\<rparr>
                in case watch e of
                     None \<Rightarrow> (Some LocationUnavailableError, a\<lparr>currentSession := Some s\<rparr>)
                   | Some w \<Rightarrow>
                       (None, a\<lparr>currentSession := Some (s\<lparr>watchId := Some w\<rparr>)\<rparr>))))"

text \<open>
  \<^verbatim>\<open>handleLocationUpdate\<close>. On an empty track \<^verbatim>\<open>coords[coords.length - 1]\<close> is
  \<^verbatim>\<open>undefined\<close> and reading its \<^verbatim>\<open>lat\<close> throws. A NaN distance fails the comparison
  \<^verbatim>\<open>delta * 1000 >= 50\<close>, so the update is dropped.
\<close>

definition handleLocationUpdate :: "platform \<Rightarrow> Coordinate \<Rightarrow> app \<Rightarrow> error option \<times> app" where
  "handleLocationUpdate pf coord a =
     (case currentSession a of
        None \<Rightarrow> (None, a)
      | Some s \<Rightarrow>
          if coords s = [] then (Some TypeError, a)
          else
            (case computedDistance pf (last (coords s)) coord of
               None \<Rightarrow> (None, a)
             | Some delta \<Rightarrow>
                 if delta * 1000 \<ge> 50 then
                   (None, a\<lparr>currentSession :=
                      Some (s\<lparr>distance := distance s + delta, coords := coords s @ [coord]\<rparr>)\<rparr>)
                 else (None, a)))"

text \<open>
  The body shared by \<^verbatim>\<open>toggleBreak\<close> and \<^verbatim>\<open>toggleRest\<close>, on the list of intervals: close
  the last interval when it has no end, open a new one otherwise; with the position when
  there is one.
\<close>

definition toggleInterval :: "env \<Rightarrow> BreakLog list \<Rightarrow> BreakLog list" where
  "toggleInterval e bs =
     (if bs \<noteq> [] \<and> end' (last bs) = None then
        bs[length bs - 1 :=
             (case position e of
                Some (la, lo) \<Rightarrow> (last bs)\<lparr>end' := Some (now e), endLat := Some la, endLng := Some lo\<rparr>
              | None \<Rightarrow> (last bs)\<lparr>end' := Some (now e)\<rparr>)]
      else
        bs @ [case position e of
                Some (la, lo) \<Rightarrow>
                  \<lparr>start = now e, end' = None, startLat = Some la, startLng = Some lo,
                   endLat = None, endLng = None\<rparr>
              | None \<Rightarrow>
                  \<lparr>start = now e, end' = None, startLat = None, startLng = None,
                   endLat = None, endLng = None\<rparr>])"

definition toggleBreak :: "env \<Rightarrow> app \<Rightarrow> error option \<times> app" where
  "toggleBreak e a =
     (case currentSession a of
        None \<Rightarrow> (None, a)
      | Some s \<Rightarrow> (None, a\<lparr>currentSession := Some (s\<lparr>breaks := toggleInterval e (breaks s)\<rparr>)\<rparr>))"

definition toggleRest :: "env \<Rightarrow> app \<Rightarrow> error option \<times> app" where
  "toggleRest e a =
     (case currentSession a of
        None \<Rightarrow> (None, a)
      | Some s \<Rightarrow> (None, a\<lparr>currentSession := Some (s\<lparr>rests := toggleInterval e (rests s)\<rparr>)\<rparr>))"

text \<open>
  \<^verbatim>\<open>addFuel\<close>. The two arguments are the answers to the two prompts (\<open>None\<close> when the
  prompt is dismissed). A dismissed or empty first prompt ends the function silently; an
  amount that is not a number above 0 ends it with an alert.
\<close>

definition fuelCostOf :: "platform \<Rightarrow> string option \<Rightarrow> real" where
  "fuelCostOf pf costStr =
     (case costStr of
        None \<Rightarrow> 0
      | Some cs \<Rightarrow>
          if cs = [] then 0
          else (case parseFloat pf cs of
                  None \<Rightarrow> 0
                | Some c \<Rightarrow> if c > 0 then c else 0))"

definition addFuel :: "platform \<Rightarrow> env \<Rightarrow> string option \<Rightarrow> string option \<Rightarrow> app \<Rightarrow> error option \<times> app" where
  "addFuel pf e amountStr costStr a =
     (case currentSession a of
        None \<Rightarrow> (None, a)
      | Some s \<Rightarrow>
          (case amountStr of
             None \<Rightarrow> (None, a)
           | Some str \<Rightarrow>
               if str = [] then (None, a)
               else
                 (case parseFloat pf str of
                    None \<Rightarrow> (Some ValidationError, a)
                  | Some amt \<Rightarrow>
                      if amt \<le> 0 then (Some ValidationError, a)
                      else
                        (let c = fuelCostOf pf costStr;
                             (la, lo) = (case position e of Some p \<Rightarrow> p | None \<Rightarrow> (0, 0))
                         in (None, a\<lparr>currentSession :=
                               Some (s\<lparr>fuelLogs := fuelLogs s @
                                 [\<lparr>time = now e, amount = amt, cost = Some c,
                                   fuelLat = la, fuelLng = lo\<rparr>]\<rparr>)\<rparr>)))))"

text \<open>\<^verbatim>\<open>totalBreakMs\<close> and \<^verbatim>\<open>totalRestMs\<close>; \<^verbatim>\<open>b.end || Date.now()\<close> takes the clock also when
  the end is 0.\<close>

definition endOrNow :: "int \<Rightarrow> BreakLog \<Rightarrow> int" where
  "endOrNow n b = (case end' b of None \<Rightarrow> n | Some t \<Rightarrow> if t = 0 then n else t)"

definition totalBreakMs :: "int \<Rightarrow> SessionState \<Rightarrow> int" where
  "totalBreakMs n s = foldl (\<lambda>sum b. sum + (endOrNow n b - start b)) 0 (breaks s)"

definition totalRestMs :: "int \<Rightarrow> SessionState \<Rightarrow> int" where
  "totalRestMs n s = foldl (\<lambda>sum r. sum + (endOrNow n r - start r)) 0 (rests s)"

subsection \<open>main.ts: synchronisation\<close>

text \<open>
  \<^verbatim>\<open>postLog\<close>, given the reply of the endpoint: \<open>None\<close> when it returns, the exception
  otherwise.
\<close>

definition postLog :: "config \<Rightarrow> reply \<Rightarrow> LogRecord \<Rightarrow> error option" where
  "postLog cfg rp r =
     (if falsy (SHEETS_WEBAPP_URL cfg) then Some ConfigurationError
      else
        (case rp of
           FetchRejected \<Rightarrow> Some TransportError
         | Response ok body \<Rightarrow>
             if \<not> ok then Some TransportError
             else
               (case body of
                  JsonInvalid \<Rightarrow> Some TransportError
                | JsonFalsy \<Rightarrow> Some TransportError
                | JsonObject ack \<Rightarrow> if \<not> ack then Some TransportError else None)))"

text \<open>
  The loop of \<^verbatim>\<open>sendPendingIfOnline\<close>: the \<open>k\<close>-th \<^verbatim>\<open>fetch\<close> of the pass gets the reply
  \<open>nt k\<close>. The result says whether the loop ran to its end, and lists the invocations of
  \<^verbatim>\<open>postLog\<close> in order, each with whether it returned normally.
\<close>

fun sendAll :: "config \<Rightarrow> (nat \<Rightarrow> reply) \<Rightarrow> nat \<Rightarrow> LogRecord list \<Rightarrow> bool \<times> (LogRecord \<times> bool) list" where
  "sendAll cfg nt k [] = (True, [])"
| "sendAll cfg nt k (r # rs) =
     (case postLog cfg (nt k) r of
        Some err \<Rightarrow> (False, [(r, False)])
      | None \<Rightarrow> (let (ok, tr) = sendAll cfg nt (Suc k) rs in (ok, (r, True) # tr)))"

definition sendPendingIfOnline :: "env \<Rightarrow> app \<Rightarrow> app" where
  "sendPendingIfOnline e a =
     (if \<not> online e then a
      else if falsy (SHEETS_WEBAPP_URL (appConfig a)) then a
      else
        (let pend = getPendingLogs (db a) in
         if pend = [] then a
         else
           (case sendAll (appConfig a) (net e) 0 pend of
              (False, tr) \<Rightarrow> a\<lparr>posted := posted a @ tr\<rparr>
            | (True, tr) \<Rightarrow> a\<lparr>posted := posted a @ tr, db := clearPendingLogs (db a)\<rparr>)))"

subsection \<open>main.ts: ending the session\<close>

text \<open>\<^verbatim>\<open>parseFloat(x.toFixed(3))\<close>: the nearest multiple of 0.001, a tie going away from
  zero; from \<open>10\<^sup>2\<^sup>1\<close> on \<^verbatim>\<open>toFixed\<close> prints the number itself.\<close>

definition round3 :: "real \<Rightarrow> real" where
  "round3 x =
     (if \<bar>x\<bar> \<ge> 10 ^ 21 then x
      else if x < 0 then - (real_of_int (round (- x * 1000)) / 1000)
      else real_of_int (round (x * 1000)) / 1000)"

text \<open>The labels of the generated note lines, as UTF-8 bytes.\<close>

definition label_restTotal :: string where
  "label_restTotal = [CHR 0xE4, CHR 0xBC, CHR 0x91, CHR 0xE6, CHR 0x81, CHR 0xAF,
                      CHR 0xE5, CHR 0x90, CHR 0x88, CHR 0xE8, CHR 0xA8, CHR 0x88, CHR 0x3A]"

definition label_minutes :: string where
  "label_minutes = [CHR 0xE5, CHR 0x88, CHR 0x86]"

definition label_break :: string where
  "label_break = [CHR 0xE4, CHR 0xBC, CHR 0x91, CHR 0xE6, CHR 0x86, CHR 0xA9]"

definition label_rest :: string where
  "label_rest = [CHR 0xE4, CHR 0xBC, CHR 0x91, CHR 0xE6, CHR 0x81, CHR 0xAF]"

definition label_fuel :: string where
  "label_fuel = [CHR 0xE7, CHR 0xB5, CHR 0xA6, CHR 0xE6, CHR 0xB2, CHR 0xB9]"

definition label_litres_yen :: string where
  "label_litres_yen = [CHR 0x4C, CHR 0x20, CHR 0xC2, CHR 0xA5]"

definition coordText :: "platform \<Rightarrow> real option \<Rightarrow> real option \<Rightarrow> string" where
  "coordText pf la lo =
     (case la of
        None \<Rightarrow> []
      | Some x \<Rightarrow>
          ''('' @ toFixed5 pf x @ '','' @ toFixed5 pf (case lo of None \<Rightarrow> 0 | Some y \<Rightarrow> y) @ '')'')"

definition intervalLine :: "platform \<Rightarrow> string \<Rightarrow> nat \<times> BreakLog \<Rightarrow> string" where
  "intervalLine pf label ib =
     (let idx = fst ib; b = snd ib;
          sTime = toISOString pf (start b);
          eTime = (case end' b of None \<Rightarrow> [] | Some t \<Rightarrow> if t = 0 then [] else toISOString pf t)
      in label @ intToString pf (int idx + 1) @ '':'' @ sTime @ coordText pf (startLat b) (startLng b)
           @ ''-'' @ eTime @ coordText pf (endLat b) (endLng b))"

definition fuelLine :: "platform \<Rightarrow> nat \<times> FuelEvent \<Rightarrow> string" where
  "fuelLine pf jf =
     (let idx = fst jf; f = snd jf
      in label_fuel @ intToString pf (int idx + 1) @ '':'' @ toISOString pf (time f)
           @ ''('' @ toFixed5 pf (fuelLat f) @ '','' @ toFixed5 pf (fuelLng f) @ '') ''
           @ numToString pf (amount f) @ label_litres_yen
           @ numToString pf (case cost f of None \<Rightarrow> 0 | Some c \<Rightarrow> c))"

fun join :: "string \<Rightarrow> string list \<Rightarrow> string" where
  "join sep [] = []"
| "join sep [x] = x"
| "join sep (x # y # ys) = x @ sep @ join sep (y # ys)"

definition mapsLink :: "platform \<Rightarrow> real \<Rightarrow> real \<Rightarrow> string" where
  "mapsLink pf la lo = ''https://www.google.com/maps?q='' @ numToString pf la @ '','' @ numToString pf lo"

text \<open>
  Lines 566 to 579 of \<^verbatim>\<open>endSession\<close>: the arrival coordinate (zeros when the position
  cannot be obtained) is pushed onto the track.
\<close>

definition arrive :: "env \<Rightarrow> SessionState \<Rightarrow> Coordinate \<times> SessionState" where
  "arrive e s =
     (let (endLa, endLn) = (case position e of Some p \<Rightarrow> p | None \<Rightarrow> (0, 0));
          endCoord = \<lparr>lat = endLa, lng = endLn, timestamp = now e\<rparr>
      in (endCoord, s\<lparr>coords := coords s @ [endCoord]\<rparr>))"

text \<open>Lines 580 to 647 of \<^verbatim>\<open>endSession\<close>: the record, with its note.\<close>

definition buildRecord :: "platform \<Rightarrow> env \<Rightarrow> string option \<Rightarrow> Coordinate \<Rightarrow> SessionState \<Rightarrow> LogRecord" where
  "buildRecord pf e userNote endCoord s =
     (let totalDistance = distance s;
          totalBreak = totalBreakMs (now e) s;
          totalRest = totalRestMs (now e) s;
          drivingMs = now e - startTime s - totalBreak - totalRest;
          userText = (case userNote of
                        None \<Rightarrow> []
                      | Some u \<Rightarrow> if trim pf u \<noteq> [] then trim pf u else []);
          restMinutes = totalRest div 60000;
          notes = (if restMinutes > 0
                   then [label_restTotal @ intToString pf restMinutes @ label_minutes] else [])
                  @ map (intervalLine pf label_break) (enumerate 0 (breaks s))
                  @ map (intervalLine pf label_rest) (enumerate 0 (rests s))
                  @ map (fuelLine pf) (enumerate 0 (fuelLogs s))
      in \<lparr>log_id = None,
          date = takeWhile (\<lambda>ch. ch \<noteq> CHR ''T'') (toISOString pf (startTime s)),
          departureName =
            Some (case startCoord s of
                    None \<Rightarrow> []
                  | Some sc \<Rightarrow> mapsLink pf (lat sc) (lng sc)),
          arrivalName = Some (mapsLink pf (lat endCoord) (lng endCoord)),
          departureTime = toISOString pf (startTime s),
          arrivalTime = Some (toISOString pf (now e)),
          drivingMinutes = drivingMs div 60000,
          breakMinutes = totalBreak div 60000,
          distanceKm = round3 totalDistance,
          fuelLitres = foldl (\<lambda>sum f. sum + amount f) 0 (fuelLogs s),
          fuelCost = foldl (\<lambda>sum f. sum + (case cost f of None \<Rightarrow> 0 | Some c \<Rightarrow> c)) 0 (fuelLogs s),
          departureLat = (case startCoord s of None \<Rightarrow> 0 | Some sc \<Rightarrow> lat sc),
          departureLng = (case startCoord s of None \<Rightarrow> 0 | Some sc \<Rightarrow> lng sc),
          arrivalLat = lat endCoord,
          arrivalLng = lng endCoord,
          note_text = Some (join '' | '' (filter (\<lambda>t. t \<noteq> []) (userText # notes)))\<rparr>)"

text \<open>
  \<^verbatim>\<open>endSession\<close>. Without a session it returns at once (line 561), as silently as it
  returns at its end. Otherwise the record is saved, flagged as pending when offline;
  then the pending records are sent; then the session is dropped.
\<close>

definition endSession :: "platform \<Rightarrow> env \<Rightarrow> string option \<Rightarrow> app \<Rightarrow> error option \<times> app" where
  "endSession pf e userNote a =
     (case currentSession a of
        None \<Rightarrow> (None, a)
      | Some s \<Rightarrow>
          (let (endCoord, s1) = arrive e s;
               r = buildRecord pf e userNote endCoord s1;
               a1 = a\<lparr>currentSession := Some s1\<rparr>
           in case saveLog r (\<not> online e) (db a1) of
                None \<Rightarrow> (Some StorageError, a1)
              | Some d \<Rightarrow>
                  (None, (sendPendingIfOnline e (a1\<lparr>db := d\<rparr>))\<lparr>currentSession := None\<rparr>)))"

subsection \<open>The handlers as one transition function\<close>

text \<open>
  The controller attaches the functions above to buttons, to the location watch and to
  the \<^verbatim>\<open>online\<close> event. An action names the handler that runs, with the answers the user
  gives to its prompts.
\<close>

datatype action =
    Start
  | Location Coordinate
  | ToggleBreak
  | ToggleRest
  | AddFuel "string option" "string option"
  | End "string option"
  | Sync

fun step :: "platform \<Rightarrow> env \<times> action \<Rightarrow> app \<Rightarrow> error option \<times> app" where
  "step pf (e, Start) a = startSession e a"
| "step pf (e, Location c) a = handleLocationUpdate pf c a"
| "step pf (e, ToggleBreak) a = toggleBreak e a"
| "step pf (e, ToggleRest) a = toggleRest e a"
| "step pf (e, AddFuel amountStr costStr) a = addFuel pf e amountStr costStr a"
| "step pf (e, End userNote) a = endSession pf e userNote a"
| "step pf (e, Sync) a = (None, sendPendingIfOnline e a)"

fun run :: "platform \<Rightarrow> (env \<times> action) list \<Rightarrow> app \<Rightarrow> app" where
  "run pf [] a = a"
| "run pf (x # xs) a = run pf xs (snd (step pf x a))"

text \<open>The actions the user and the location watch take between the start and the end of
  a session.\<close>

fun during_session :: "action \<Rightarrow> bool" where
  "during_session (Location c) = True"
| "during_session ToggleBreak = True"
| "during_session ToggleRest = True"
| "during_session (AddFuel amountStr costStr) = True"
| "during_session other = False"

text \<open>The length of a track: the sum of the distances between consecutive points.\<close>

definition legKm :: "Coordinate \<Rightarrow> Coordinate \<Rightarrow> real" where
  "legKm a b = (case haversineDistance a b of None \<Rightarrow> 0 | Some d \<Rightarrow> d)"

fun trackLength :: "Coordinate list \<Rightarrow> real" where
  "trackLength [] = 0"
| "trackLength [a] = 0"
| "trackLength (a # b # cs) = legKm a b + trackLength (b # cs)"

subsection \<open>Sample data\<close>

text \<open>Concrete values on which the theorems below are instantiated.\<close>

definition sample_platform :: platform where
  "sample_platform =
     \<lparr>parseFloat = (\<lambda>s. if s = ''12'' then Some 12
                        else if s = ''3000'' then Some 3000
                        else if s = ''0'' then Some 0
                        else if s = ''-3'' then Some (- 3)
                        else None),
      trim = (\<lambda>s. s),
      toISOString = (\<lambda>t. ''1970-01-01T00:00:00.000Z''),
      toFixed5 = (\<lambda>x. ''0.00000''),
      numToString = (\<lambda>x. ''0''),
      intToString = (\<lambda>i. ''1''),
      roundsToNaN = (\<lambda>a b. False)\<rparr>"

definition sample_log :: "string \<Rightarrow> LogRecord" where
  "sample_log d =
     \<lparr>log_id = None, date = d, departureName = Some [], arrivalName = Some [],
      departureTime = [], arrivalTime = Some [], drivingMinutes = 0, breakMinutes = 0,
      distanceKm = 0, fuelLitres = 0, fuelCost = 0, departureLat = 0, departureLng = 0,
      arrivalLat = 0, arrivalLng = 0, note_text = Some []\<rparr>"

definition stored_log :: "nat \<Rightarrow> string \<Rightarrow> LogRecord" where
  "stored_log k d = (sample_log d)\<lparr>log_id := Some k\<rparr>"

definition accepted :: reply where
  "accepted = Response True (JsonObject True)"

definition sample_env :: env where
  "sample_env =
     \<lparr>now = 1000, online = True, position = Some (0, 0), watch = Some 1,
      net = (\<lambda>k. accepted)\<rparr>"

definition idle_app :: app where
  "idle_app =
     \<lparr>currentSession = None,
      appConfig = \<lparr>SHEETS_WEBAPP_URL = Some ''https://sink.example/exec'', OPENAI_API_KEY = None\<rparr>,
      db = \<lparr>logs = empty_store, pending = empty_store\<rparr>,
      posted = []\<rparr>"

text \<open>The state after the given records were saved while offline, one after the other.\<close>

fun saved_offline :: "LogRecord list \<Rightarrow> app \<Rightarrow> app" where
  "saved_offline [] a = a"
| "saved_offline (r # rs) a =
     (case saveLog r True (db a) of
        None \<Rightarrow> a
      | Some d \<Rightarrow> saved_offline rs (a\<lparr>db := d\<rparr>))"

definition driving_app :: app where
  "driving_app = snd (startSession sample_env idle_app)"

definition start_point :: Coordinate where
  "start_point = \<lparr>lat = 0, lng = 0, timestamp = 1000\<rparr>"

definition far_point :: Coordinate where
  "far_point = \<lparr>lat = 0, lng = 180, timestamp = 2000\<rparr>"

definition driving_session :: SessionState where
  "driving_session =
     \<lparr>startTime = 1000, startCoord = Some start_point, coords = [start_point], distance = 0,
      breaks = [], rests = [], fuelLogs = [], watchId = Some 1\<rparr>"

definition arriving_far :: env where
  "arriving_far = sample_env\<lparr>now := 2000, position := Some (0, 180)\<rparr>"

text \<open>
  Two points opposite on the globe. Evaluated in doubles, their haversine term is
  1.0000000000000002, so \<^verbatim>\<open>Math.sqrt(1 - h)\<close> and the distance are NaN;
  \<open>double_platform\<close> is the sample platform with this rounding.
\<close>

definition north_point :: Coordinate where
  "north_point = \<lparr>lat = 70.6054, lng = - 111.3757, timestamp = 1000\<rparr>"

definition south_point :: Coordinate where
  "south_point = \<lparr>lat = - 70.6054, lng = 68.6243, timestamp = 2000\<rparr>"

definition double_platform :: platform where
  "double_platform =
     sample_platform\<lparr>roundsToNaN :=
       (\<lambda>a b. lat a = 70.6054 \<and> lng a = - 111.3757 \<and> lat b = - 70.6054 \<and> lng b = 68.6243)\<rparr>"

definition northern_session :: SessionState where
  "northern_session =
     \<lparr>startTime = 1000, startCoord = Some north_point, coords = [north_point], distance = 0,
      breaks = [], rests = [], fuelLogs = [], watchId = Some 1\<rparr>"

definition northern_app :: app where
  "northern_app = snd (startSession (sample_env\<lparr>position := Some (70.6054, - 111.3757)\<rparr>) idle_app)"

definition second_fails :: env where
  "second_fails = sample_env\<lparr>net := (\<lambda>k. if k = 1 then FetchRejected else accepted)\<rparr>"

definition two_queued :: app where
  "two_queued = saved_offline [sample_log ''a'', sample_log ''b''] idle_app"

definition three_queued :: app where
  "three_queued = saved_offline [sample_log ''a'', sample_log ''b'', sample_log ''c''] idle_app"

section \<open>Verification\<close>

subsection \<open>Properties of the distance function\<close>

lemma sin_half_flip:
  "(sin (toRadians (x - y) / 2))\<^sup>2 = (sin (toRadians (y - x) / 2))\<^sup>2"
proof -
  have "toRadians (x - y) / 2 = - (toRadians (y - x) / 2)"
    by (simp add: toRadians_def field_simps)
  then show ?thesis by (simp only: sin_minus power2_minus)
qed

text \<open>
  Claim C9. For all coordinates \<open>a\<close> and \<open>b\<close>, the distance from \<open>a\<close> to itself is 0 and
  the distance from \<open>a\<close> to \<open>b\<close> equals the distance from \<open>b\<close> to \<open>a\<close>. The function is a
  HOL function of its two arguments only: it reads and writes no state. (Over the reals
  the two sides of the symmetry are equal, so they agree within every tolerance.)
\<close>

theorem haversineDistance_zero_and_symmetric:
  "haversineDistance a a = Some 0 \<and> haversineDistance a b = haversineDistance b a"
proof
  show "haversineDistance a a = Some 0"
    by (simp add: haversineDistance_def toRadians_def atan2_def)
  show "haversineDistance a b = haversineDistance b a"
    unfolding haversineDistance_def Let_def
    by (simp add: sin_half_flip [of "lat b" "lat a"] sin_half_flip [of "lng b" "lng a"]
        mult.commute mult.left_commute)
qed

text \<open>The haversine term lies between 0 and 1, so the square roots are never NaN.\<close>

lemma sin_half_sq: "(sin ((x::real) / 2))\<^sup>2 = (1 - cos x) / 2"
  using cos_double_sin [of "x / 2"] by simp

lemma convex_unit:
  fixes t A B :: real
  assumes "0 \<le> t" "t \<le> 1" "0 \<le> A" "A \<le> 1" "0 \<le> B" "B \<le> 1"
  shows "0 \<le> A + t * (B - A) \<and> A + t * (B - A) \<le> 1"
proof -
  have e: "A + t * (B - A) = (1 - t) * A + t * B" by (simp add: algebra_simps)
  have "0 \<le> (1 - t) * A + t * B" using assms by simp
  moreover have "(1 - t) * A + t * B \<le> (1 - t) * 1 + t * 1"
    using assms by (intro add_mono mult_left_mono) simp_all
  ultimately show ?thesis using e by simp
qed

lemma haversine_term_range:
  fixes p q v :: real
  shows "0 \<le> (sin ((q - p) / 2))\<^sup>2 + (sin v)\<^sup>2 * cos p * cos q
       \<and> (sin ((q - p) / 2))\<^sup>2 + (sin v)\<^sup>2 * cos p * cos q \<le> 1"
proof -
  define t where "t = (sin v)\<^sup>2"
  define A where "A = (1 - cos (q - p)) / 2"
  define B where "B = (1 + cos (q + p)) / 2"
  have t: "0 \<le> t" "t \<le> 1" by (simp_all add: t_def abs_square_le_1)
  have A: "0 \<le> A" "A \<le> 1"
    using cos_le_one [of "q - p"] cos_ge_minus_one [of "q - p"] by (simp_all add: A_def)
  have B: "0 \<le> B" "B \<le> 1"
    using cos_le_one [of "q + p"] cos_ge_minus_one [of "q + p"] by (simp_all add: B_def, linarith+)
  have cc: "cos p * cos q = B - A"
    by (simp add: A_def B_def cos_add cos_diff field_simps)
  have "(sin ((q - p) / 2))\<^sup>2 + (sin v)\<^sup>2 * cos p * cos q = A + t * (cos p * cos q)"
    by (simp add: sin_half_sq A_def t_def mult.assoc)
  then have "(sin ((q - p) / 2))\<^sup>2 + (sin v)\<^sup>2 * cos p * cos q = A + t * (B - A)"
    by (simp only: cc)
  then show ?thesis using convex_unit [OF t A B] by simp
qed

lemma haversineDistance_defined: "\<exists>d. haversineDistance a b = Some d"
proof -
  have r: "toRadians (lat b - lat a) / 2 = (toRadians (lat b) - toRadians (lat a)) / 2"
    by (simp add: toRadians_def field_simps)
  show ?thesis
    using haversine_term_range [of "toRadians (lat b)" "toRadians (lat a)" "toRadians (lng b - lng a) / 2"]
    unfolding haversineDistance_def Let_def r
    by (auto simp: mult.commute mult.left_commute not_less)
qed

lemma atan2_nonneg:
  assumes "0 \<le> y"
  shows "0 \<le> atan2 y x"
proof -
  have lb: "0 \<le> arctan (y / x) + pi"
    using arctan_lbound [of "y / x"] pi_gt_zero by linarith
  have pos: "0 < x \<Longrightarrow> 0 \<le> arctan (y / x)"
    using assms by (simp add: zero_le_divide_iff)
  show ?thesis
    using assms lb pos by (simp add: atan2_def)
qed

lemma haversineDistance_nonneg: "haversineDistance a b = Some d \<Longrightarrow> 0 \<le> d"
  unfolding haversineDistance_def Let_def
  by (auto simp: EARTH_RADIUS_KM_def not_less atan2_nonneg split: if_splits)

subsection \<open>The outbox\<close>

lemma sendAll_all_ok:
  "(\<And>i. i < length rs \<Longrightarrow> postLog cfg (nt (k + i)) (rs ! i) = None) \<Longrightarrow>
   sendAll cfg nt k rs = (True, map (\<lambda>r. (r, True)) rs)"
proof (induction rs arbitrary: k)
  case Nil
  show ?case by simp
next
  case (Cons r rs)
  have hd: "postLog cfg (nt k) r = None"
    using Cons.prems [of 0] by simp
  have tl: "\<And>i. i < length rs \<Longrightarrow> postLog cfg (nt (Suc k + i)) (rs ! i) = None"
    using Cons.prems [of "Suc _"] by simp
  show ?case
    by (simp add: hd Cons.IH [OF tl])
qed

text \<open>
  Claim C1. With three records queued, the network up and an endpoint configured, when
  the post of the first record succeeds and the post of the second fails, the database
  after the pass is the database before it (the three records are still queued, in the
  same order), and \<^verbatim>\<open>postLog\<close> was invoked exactly twice, on the first and the second
  record: the third record is not posted.
\<close>

theorem sync_stops_at_first_failure:
  assumes "online e"
    and "\<not> falsy (SHEETS_WEBAPP_URL (appConfig a))"
    and "getPendingLogs (db a) = [r1, r2, r3]"
    and "postLog (appConfig a) (net e 0) r1 = None"
    and "postLog (appConfig a) (net e 1) r2 \<noteq> None"
  shows "db (sendPendingIfOnline e a) = db a
       \<and> getPendingLogs (db (sendPendingIfOnline e a)) = [r1, r2, r3]
       \<and> posted (sendPendingIfOnline e a) = posted a @ [(r1, True), (r2, False)]"
proof -
  obtain err where err: "postLog (appConfig a) (net e (Suc 0)) r2 = Some err"
    using assms(5) by auto
  have "sendAll (appConfig a) (net e) 0 [r1, r2, r3] = (False, [(r1, True), (r2, False)])"
    by (simp add: assms(4) err)
  then have "sendPendingIfOnline e a = a\<lparr>posted := posted a @ [(r1, True), (r2, False)]\<rparr>"
    using assms(1-3) by (simp add: sendPendingIfOnline_def)
  then show ?thesis using assms(3) by simp
qed

text \<open>
  Claim C2. With the network up and an endpoint configured, when the post of every
  queued record succeeds, then after the pass the pending store has no record, the
  store of logs is the one before the pass (so every record it held is still there),
  and each queued record was posted once, in order.
\<close>

theorem sync_all_posted_clears_pending_only:
  assumes "online e"
    and "\<not> falsy (SHEETS_WEBAPP_URL (appConfig a))"
    and "\<And>k. k < length (getPendingLogs (db a)) \<Longrightarrow>
           postLog (appConfig a) (net e k) (getPendingLogs (db a) ! k) = None"
  shows "getPendingLogs (db (sendPendingIfOnline e a)) = []
       \<and> logs (db (sendPendingIfOnline e a)) = logs (db a)
       \<and> getAllLogs (db (sendPendingIfOnline e a)) = getAllLogs (db a)
       \<and> posted (sendPendingIfOnline e a) =
           posted a @ map (\<lambda>r. (r, True)) (getPendingLogs (db a))"
proof (cases "getPendingLogs (db a) = []")
  case True
  then show ?thesis using assms(1,2) by (simp add: sendPendingIfOnline_def)
next
  case False
  have "sendAll (appConfig a) (net e) 0 (getPendingLogs (db a))
        = (True, map (\<lambda>r. (r, True)) (getPendingLogs (db a)))"
    using assms(3) by (intro sendAll_all_ok) simp
  then have "sendPendingIfOnline e a =
      a\<lparr>posted := posted a @ map (\<lambda>r. (r, True)) (getPendingLogs (db a)),
        db := clearPendingLogs (db a)\<rparr>"
    using assms(1,2) False by (simp add: sendPendingIfOnline_def Let_def)
  then show ?thesis
    by (simp add: clearPendingLogs_def store_clear_def getPendingLogs_def getAllLogs_def)
qed

subsection \<open>The session\<close>

lemma trackLength_snoc:
  "xs \<noteq> [] \<Longrightarrow> trackLength (xs @ [c]) = trackLength xs + legKm (last xs) c"
  by (induction xs rule: trackLength.induct) simp_all

lemma sync_keeps_session: "currentSession (sendPendingIfOnline e a) = currentSession a"
  by (simp add: sendPendingIfOnline_def Let_def split: prod.splits bool.splits)

lemma sync_keeps_logs: "logs (db (sendPendingIfOnline e a)) = logs (db a)"
  by (simp add: sendPendingIfOnline_def Let_def clearPendingLogs_def split: prod.splits bool.splits)

text \<open>What one location update does to an active session with a non-empty track.\<close>

lemma handleLocationUpdate_cases:
  assumes "currentSession a = Some s" and "coords s \<noteq> []"
  shows "computedDistance pf (last (coords s)) c = None \<Longrightarrow>
           handleLocationUpdate pf c a = (None, a)"
    and "computedDistance pf (last (coords s)) c = Some d \<Longrightarrow> d * 1000 < 50 \<Longrightarrow>
           handleLocationUpdate pf c a = (None, a)"
    and "computedDistance pf (last (coords s)) c = Some d \<Longrightarrow> d * 1000 \<ge> 50 \<Longrightarrow>
           handleLocationUpdate pf c a =
             (None, a\<lparr>currentSession := Some (s\<lparr>distance := distance s + d, coords := coords s @ [c]\<rparr>)\<rparr>)"
  using assms by (simp_all add: handleLocationUpdate_def)

text \<open>
  Claim C5. In an active session (whose track holds at least the start point), take the
  distance from the last accepted point to the update as the program computes it. When
  it is a number below 50 metres, the update changes nothing: the accumulated distance
  and the track are as before. When it is a number of 50 metres or more, the point is
  appended at the end of the track and exactly that distance is added to the accumulated
  distance. When it is NaN, the comparison fails and the update changes nothing either.
  A computed distance that is a number is the haversine distance of the two points.
  In every case the old track is a prefix of the new one: no point is removed or moved.
\<close>

theorem handleLocationUpdate_threshold:
  assumes "currentSession a = Some s" and "coords s \<noteq> []"
  shows "(\<forall>d. computedDistance pf (last (coords s)) c = Some d \<and> d * 1000 < 50 \<longrightarrow>
            handleLocationUpdate pf c a = (None, a))
       \<and> (\<forall>d. computedDistance pf (last (coords s)) c = Some d \<and> d * 1000 \<ge> 50 \<longrightarrow>
            handleLocationUpdate pf c a =
              (None, a\<lparr>currentSession :=
                 Some (s\<lparr>distance := distance s + d, coords := coords s @ [c]\<rparr>)\<rparr>))
       \<and> (computedDistance pf (last (coords s)) c = None \<longrightarrow>
            handleLocationUpdate pf c a = (None, a))
       \<and> (\<forall>d. computedDistance pf (last (coords s)) c = Some d \<longrightarrow>
            haversineDistance (last (coords s)) c = Some d)
       \<and> (\<exists>s'. currentSession (snd (handleLocationUpdate pf c a)) = Some s'
              \<and> prefix (coords s) (coords s')
              \<and> (coords s' = coords s \<or> coords s' = coords s @ [c]))"
proof (cases "computedDistance pf (last (coords s)) c")
  case None
  then show ?thesis
    using handleLocationUpdate_cases(1) [OF assms] assms(1) by simp
next
  case (Some d)
  then have exact: "haversineDistance (last (coords s)) c = Some d"
    by (simp add: computedDistance_def split: if_splits)
  show ?thesis
  proof (cases "d * 1000 < 50")
    case True
    then have "handleLocationUpdate pf c a = (None, a)"
      using handleLocationUpdate_cases(2) [OF assms Some] by simp
    then show ?thesis using Some exact True assms(1) by simp
  next
    case False
    then have "handleLocationUpdate pf c a =
        (None, a\<lparr>currentSession := Some (s\<lparr>distance := distance s + d, coords := coords s @ [c]\<rparr>)\<rparr>)"
      using handleLocationUpdate_cases(3) [OF assms Some] by simp
    then show ?thesis using Some exact False by simp
  qed
qed

text \<open>Each action taken during a session keeps the session, never lowers its distance,
  keeps the distance equal to the length of the track, and only extends the track.\<close>

lemma step_during_session:
  assumes "during_session act" and "currentSession a = Some s"
  shows "\<exists>s'. currentSession (snd (step pf (e, act) a)) = Some s'
           \<and> distance s \<le> distance s'
           \<and> (coords s \<noteq> [] \<longrightarrow> coords s' \<noteq> [])
           \<and> (coords s \<noteq> [] \<and> distance s = trackLength (coords s)
                \<longrightarrow> distance s' = trackLength (coords s'))"
proof (cases act)
  case (Location c)
  show ?thesis
  proof (cases "coords s = []")
    case True
    then show ?thesis using Location assms(2) by (simp add: handleLocationUpdate_def)
  next
    case False
    show ?thesis
    proof (cases "computedDistance pf (last (coords s)) c")
      case None
      then show ?thesis
        using Location assms(2) False by (simp add: handleLocationUpdate_def)
    next
      case (Some d)
      then have d: "haversineDistance (last (coords s)) c = Some d"
        by (simp add: computedDistance_def split: if_splits)
      have d0: "0 \<le> d" using haversineDistance_nonneg [OF d] .
      have leg: "legKm (last (coords s)) c = d" by (simp add: legKm_def d)
      show ?thesis
        using Location assms(2) False Some d0 leg
        by (simp add: handleLocationUpdate_def trackLength_snoc)
    qed
  qed
next
  case ToggleBreak
  then show ?thesis using assms(2) by (simp add: toggleBreak_def)
next
  case ToggleRest
  then show ?thesis using assms(2) by (simp add: toggleRest_def)
next
  case (AddFuel amountStr costStr)
  then show ?thesis using assms(2)
    by (simp add: addFuel_def Let_def split: option.splits prod.splits)
qed (use assms(1) in simp_all)

lemma run_during_session:
  assumes "\<forall>x\<in>set xs. during_session (snd x)" and "currentSession a = Some s"
  shows "\<exists>s'. currentSession (run pf xs a) = Some s'
           \<and> distance s \<le> distance s'
           \<and> (coords s \<noteq> [] \<and> distance s = trackLength (coords s)
                \<longrightarrow> coords s' \<noteq> [] \<and> distance s' = trackLength (coords s'))"
  using assms
proof (induction xs arbitrary: a s)
  case Nil
  then show ?case by simp
next
  case (Cons x xs)
  obtain e act where x: "x = (e, act)" by (cases x)
  have act: "during_session act" using Cons.prems(1) x by simp
  obtain s1 where s1: "currentSession (snd (step pf (e, act) a)) = Some s1"
      "distance s \<le> distance s1"
      "coords s \<noteq> [] \<longrightarrow> coords s1 \<noteq> []"
      "coords s \<noteq> [] \<and> distance s = trackLength (coords s) \<longrightarrow> distance s1 = trackLength (coords s1)"
    using step_during_session [OF act Cons.prems(2), of pf e] by blast
  have rest: "\<forall>y\<in>set xs. during_session (snd y)" using Cons.prems(1) by simp
  obtain s' where s': "currentSession (run pf xs (snd (step pf (e, act) a))) = Some s'"
      "distance s1 \<le> distance s'"
      "coords s1 \<noteq> [] \<and> distance s1 = trackLength (coords s1)
         \<longrightarrow> coords s' \<noteq> [] \<and> distance s' = trackLength (coords s')"
    using Cons.IH [OF rest s1(1)] by blast
  show ?case using x s1 s' by auto
qed

text \<open>
  Claim C6. During an active session the accumulated distance never decreases: after
  any sequence of location updates, break and rest toggles and fuel events the session
  is still there and its distance is at least what it was. The distance that an
  accepted update adds is never negative.
\<close>

theorem distance_never_decreases:
  assumes "currentSession a = Some s" and "\<forall>x\<in>set xs. during_session (snd x)"
  shows "(\<exists>s'. currentSession (run pf xs a) = Some s' \<and> distance s \<le> distance s')
       \<and> (\<forall>p q d. haversineDistance p q = Some d \<longrightarrow> 0 \<le> d)"
  using run_during_session [OF assms(2) assms(1), of pf] haversineDistance_nonneg by blast

text \<open>
  Claim C7. In an active session without breaks, two calls of \<^verbatim>\<open>toggleBreak\<close> (the clock
  not running backwards between them) leave exactly one interval, which starts at the
  time of the first call and ends at the time of the second, so its start is at most its
  end. A third call leaves exactly two intervals: the same closed one, then one that
  starts at the time of the third call and has no end.
\<close>

theorem toggleBreak_two_and_three_calls:
  assumes "currentSession a = Some s" and "breaks s = []" and "now e1 \<le> now e2"
  shows "\<exists>s2 s3 b1 b2 t.
           currentSession (snd (toggleBreak e2 (snd (toggleBreak e1 a)))) = Some s2
         \<and> breaks s2 = [b1] \<and> end' b1 = Some t \<and> start b1 \<le> t
         \<and> start b1 = now e1 \<and> t = now e2
         \<and> currentSession (snd (toggleBreak e3 (snd (toggleBreak e2 (snd (toggleBreak e1 a)))))) = Some s3
         \<and> breaks s3 = [b1, b2] \<and> end' b2 = None \<and> start b2 = now e3"
  using assms
  by (cases "position e1"; cases "position e2"; cases "position e3")
     (auto simp: toggleBreak_def toggleInterval_def)

text \<open>
  Claim C8. In an active session, with an amount entered: when the amount is not a
  number or is at most 0, \<^verbatim>\<open>addFuel\<close> ends with a validation error and the state, with
  its list of fuel events, is unchanged. Otherwise it appends exactly one event to the
  end of the list, leaving the earlier events as they were; the event carries the
  amount, and its cost is the cost entered when that is a number above 0, and 0 when it
  is missing, not a number, zero or negative.
\<close>

theorem addFuel_validates_and_appends:
  assumes "currentSession a = Some s" and "amountStr = Some str" and "str \<noteq> []"
  shows "(parseFloat pf str = None \<longrightarrow>
            addFuel pf e amountStr costStr a = (Some ValidationError, a))
       \<and> (\<forall>amt. parseFloat pf str = Some amt \<and> amt \<le> 0 \<longrightarrow>
            addFuel pf e amountStr costStr a = (Some ValidationError, a))
       \<and> (\<forall>amt. parseFloat pf str = Some amt \<and> 0 < amt \<longrightarrow>
            (\<exists>ev c. addFuel pf e amountStr costStr a =
                      (None, a\<lparr>currentSession := Some (s\<lparr>fuelLogs := fuelLogs s @ [ev]\<rparr>)\<rparr>)
                  \<and> amount ev = amt \<and> time ev = now e \<and> cost ev = Some c \<and> 0 \<le> c
                  \<and> c = (case costStr of
                           None \<Rightarrow> 0
                         | Some cs \<Rightarrow>
                             (case (if cs = [] then None else parseFloat pf cs) of
                                None \<Rightarrow> 0
                              | Some x \<Rightarrow> if 0 < x then x else 0))))"
  using assms
  by (auto simp: addFuel_def fuelCostOf_def Let_def split: option.splits prod.splits)

subsection \<open>Ending the session\<close>

lemma buildRecord_fields:
  "log_id (buildRecord pf e n c s) = None"
  "distanceKm (buildRecord pf e n c s) = round3 (distance s)"
  by (simp_all add: buildRecord_def Let_def)

lemma arrive_fields:
  "coords (snd (arrive e s)) = coords s @ [fst (arrive e s)]"
  "distance (snd (arrive e s)) = distance s"
  by (simp_all add: arrive_def Let_def split: prod.splits)

lemma endSession_active:
  assumes "currentSession a = Some s"
  shows "fst (endSession pf e n a) = None"
    and "currentSession (snd (endSession pf e n a)) = None"
    and "getAllLogs (db (snd (endSession pf e n a))) =
           getAllLogs (db a) @
             [(buildRecord pf e n (fst (arrive e s)) (snd (arrive e s)))
                \<lparr>log_id := Some (nextKey (logs (db a)))\<rparr>]"
  using assms
  by (simp_all add: endSession_def Let_def saveLog_def store_add_def buildRecord_fields
      getAllLogs_def sync_keeps_logs split: prod.splits)

text \<open>
  Claim C4, as amended. When there is no session, \<^verbatim>\<open>endSession\<close> is a silent no-op: it
  returns at its guard \<^verbatim>\<open>if (!currentSession) return;\<close> without an alert or an exception,
  produces no record and leaves the whole state, with both stores, as it was. With a
  session it also returns silently, after appending exactly one record to the store of
  logs and dropping the session. So a record is produced only when there is a session.
\<close>

theorem endSession_idle_is_silent_noop:
  "(currentSession a = None \<longrightarrow> endSession pf e n a = (None, a))
 \<and> (\<forall>s. currentSession a = Some s \<longrightarrow>
        fst (endSession pf e n a) = None
      \<and> currentSession (snd (endSession pf e n a)) = None
      \<and> (\<exists>r. getAllLogs (db (snd (endSession pf e n a))) = getAllLogs (db a) @ [r]))
 \<and> (getAllLogs (db (snd (endSession pf e n a))) \<noteq> getAllLogs (db a) \<longrightarrow>
        currentSession a \<noteq> None)"
proof (cases "currentSession a")
  case None
  then show ?thesis by (simp add: endSession_def)
next
  case (Some s)
  then show ?thesis
    using endSession_active [OF Some, of pf e n] by simp
qed

lemma step_idle:
  "during_session act \<Longrightarrow> currentSession a = None \<Longrightarrow> snd (step pf (e, act) a) = a"
  by (cases act)
     (simp_all add: handleLocationUpdate_def toggleBreak_def toggleRest_def addFuel_def)

lemma run_idle:
  "\<forall>x\<in>set xs. during_session (snd x) \<Longrightarrow> currentSession a = None \<Longrightarrow> run pf xs a = a"
proof (induction xs)
  case Nil
  show ?case by simp
next
  case (Cons x xs)
  obtain e act where x: "x = (e, act)" by (cases x)
  have "snd (step pf (e, act) a) = a"
    using Cons.prems x by (intro step_idle) simp_all
  then show ?case using Cons x by simp
qed

lemma startSession_fresh:
  assumes "currentSession a0 = None"
    and "currentSession (snd (startSession e0 a0)) = Some s0"
  shows "coords s0 \<noteq> [] \<and> distance s0 = trackLength (coords s0)"
  using assms
  by (auto simp: startSession_def Let_def split: option.splits prod.splits)

text \<open>
  Claim C10. Take a session started from the idle state, then any location updates,
  toggles and fuel events, and let \<open>s\<close> be the session when \<^verbatim>\<open>endSession\<close> is called. The
  arrival coordinate is put at the end of the track whatever its distance from the last
  point, and the accumulated distance is not changed by it. The accumulated distance is
  the length of the track before the arrival point, that is the sum of the accepted
  deltas; the track with the arrival point is longer by the last leg. The record that
  \<^verbatim>\<open>endSession\<close> appends to the store of logs has as its distance the rounded
  accumulated distance, without the last leg.
\<close>

theorem endSession_distance_without_final_leg:
  assumes "currentSession a0 = None"
    and "\<forall>x\<in>set xs. during_session (snd x)"
    and "currentSession (run pf xs (snd (startSession e0 a0))) = Some s"
  shows "coords (snd (arrive e s)) = coords s @ [fst (arrive e s)]
       \<and> distance (snd (arrive e s)) = distance s
       \<and> distance s = trackLength (coords s)
       \<and> trackLength (coords (snd (arrive e s))) =
           trackLength (coords s) + legKm (last (coords s)) (fst (arrive e s))
       \<and> (\<exists>r. getAllLogs (db (snd (endSession pf e n (run pf xs (snd (startSession e0 a0)))))) =
                 getAllLogs (db (run pf xs (snd (startSession e0 a0)))) @ [r]
              \<and> distanceKm r = round3 (trackLength (coords s)))"
proof -
  let ?a1 = "snd (startSession e0 a0)"
  obtain s0 where s0: "currentSession ?a1 = Some s0"
  proof (cases "currentSession ?a1")
    case None
    then have "run pf xs ?a1 = ?a1" using run_idle [OF assms(2)] by simp
    then show ?thesis using None assms(3) by simp
  next
    case (Some s0)
    then show ?thesis using that by simp
  qed
  have inv0: "coords s0 \<noteq> [] \<and> distance s0 = trackLength (coords s0)"
    using startSession_fresh [OF assms(1) s0] .
  have inv: "coords s \<noteq> [] \<and> distance s = trackLength (coords s)"
    using run_during_session [OF assms(2) s0, of pf] inv0 assms(3) by auto
  have leg: "trackLength (coords (snd (arrive e s))) =
           trackLength (coords s) + legKm (last (coords s)) (fst (arrive e s))"
    using inv by (simp add: arrive_fields trackLength_snoc)
  have rec: "\<exists>r. getAllLogs (db (snd (endSession pf e n (run pf xs ?a1)))) =
                 getAllLogs (db (run pf xs ?a1)) @ [r]
              \<and> distanceKm r = round3 (trackLength (coords s))"
    using endSession_active(3) [OF assms(3), of pf e n] inv
    by (simp add: buildRecord_fields arrive_fields)
  show ?thesis using inv leg rec by (simp add: arrive_fields)
qed

subsection \<open>The theorems on sample data\<close>

lemmas sample_defs =
  sample_env_def second_fails_def idle_app_def accepted_def sample_log_def stored_log_def
  start_point_def driving_session_def driving_app_def sample_platform_def

lemma haversineDistance_self: "haversineDistance a a = Some 0"
  by (simp add: haversineDistance_def toRadians_def atan2_def)

lemma far_distance: "haversineDistance start_point far_point = Some (6371 * pi)"
  by (simp add: haversineDistance_def toRadians_def atan2_def start_point_def far_point_def
      EARTH_RADIUS_KM_def)

lemma opposite_distance: "haversineDistance north_point south_point = Some (6371 * pi)"
proof -
  define y where "y = toRadians 70.6054"
  have a: "toRadians (lat south_point - lat north_point) / 2 = - y"
    by (simp add: y_def toRadians_def north_point_def south_point_def)
  have b: "toRadians (lng south_point - lng north_point) / 2 = pi / 2"
    by (simp add: toRadians_def north_point_def south_point_def)
  have c: "toRadians (lat north_point) = y" "toRadians (lat south_point) = - y"
    by (simp_all add: y_def toRadians_def north_point_def south_point_def)
  have h: "(sin (- y))\<^sup>2 + (sin (pi / 2))\<^sup>2 * cos y * cos (- y) = 1"
    by (simp add: power2_eq_square [symmetric])
  show ?thesis
    unfolding haversineDistance_def Let_def a b c h
    by (simp add: atan2_def EARTH_RADIUS_KM_def)
qed

lemma northern_app_session: "currentSession northern_app = Some northern_session"
  by (simp add: northern_app_def northern_session_def north_point_def sample_env_def
      idle_app_def startSession_def Let_def)

lemma driving_app_session: "currentSession driving_app = Some driving_session"
  by (simp add: sample_defs startSession_def Let_def)

lemma two_queued_db:
  "db two_queued =
     \<lparr>logs = \<lparr>nextKey = 3, rows = [(1, stored_log 1 ''a''), (2, stored_log 2 ''b'')]\<rparr>,
      pending = \<lparr>nextKey = 3, rows = [(1, stored_log 1 ''a''), (2, stored_log 2 ''b'')]\<rparr>\<rparr>"
  by (simp add: two_queued_def sample_defs saveLog_def store_add_def empty_store_def eval_nat_numeral)

lemma three_queued_db:
  "db three_queued =
     \<lparr>logs = \<lparr>nextKey = 4, rows = [(1, stored_log 1 ''a''), (2, stored_log 2 ''b''),
                                  (3, stored_log 3 ''c'')]\<rparr>,
      pending = \<lparr>nextKey = 4, rows = [(1, stored_log 1 ''a''), (2, stored_log 2 ''b''),
                                     (3, stored_log 3 ''c'')]\<rparr>\<rparr>"
  by (simp add: three_queued_def sample_defs saveLog_def store_add_def empty_store_def eval_nat_numeral)

lemma queued_config:
  "appConfig two_queued = appConfig idle_app" "appConfig three_queued = appConfig idle_app"
  "posted two_queued = []" "posted three_queued = []"
  by (simp_all add: two_queued_def three_queued_def idle_app_def saveLog_def store_add_def
      empty_store_def sample_log_def)

lemma sample_postLog:
  "postLog (appConfig idle_app) accepted r = None"
  "postLog (appConfig idle_app) FetchRejected r = Some TransportError"
  "\<not> falsy (SHEETS_WEBAPP_URL (appConfig idle_app))"
  by (simp_all add: postLog_def falsy_def idle_app_def accepted_def)

theorem sync_stops_at_first_failure_witness:
  "online second_fails
   \<and> \<not> falsy (SHEETS_WEBAPP_URL (appConfig three_queued))
   \<and> getPendingLogs (db three_queued) = [stored_log 1 ''a'', stored_log 2 ''b'', stored_log 3 ''c'']
   \<and> postLog (appConfig three_queued) (net second_fails 0) (stored_log 1 ''a'') = None
   \<and> postLog (appConfig three_queued) (net second_fails 1) (stored_log 2 ''b'') \<noteq> None
   \<and> db (sendPendingIfOnline second_fails three_queued) = db three_queued
   \<and> getPendingLogs (db (sendPendingIfOnline second_fails three_queued)) =
        [stored_log 1 ''a'', stored_log 2 ''b'', stored_log 3 ''c'']
   \<and> posted (sendPendingIfOnline second_fails three_queued) =
        [(stored_log 1 ''a'', True), (stored_log 2 ''b'', False)]"
proof -
  have h1: "online second_fails" by (simp add: second_fails_def sample_env_def)
  have h2: "\<not> falsy (SHEETS_WEBAPP_URL (appConfig three_queued))"
    by (simp add: queued_config sample_postLog)
  have h3: "getPendingLogs (db three_queued) =
      [stored_log 1 ''a'', stored_log 2 ''b'', stored_log 3 ''c'']"
    by (simp add: three_queued_db getPendingLogs_def)
  have h4: "postLog (appConfig three_queued) (net second_fails 0) (stored_log 1 ''a'') = None"
    by (simp add: queued_config second_fails_def sample_env_def sample_postLog)
  have h5: "postLog (appConfig three_queued) (net second_fails 1) (stored_log 2 ''b'') \<noteq> None"
    by (simp add: queued_config second_fails_def sample_env_def sample_postLog)
  show ?thesis
    using sync_stops_at_first_failure [OF h1 h2 h3 h4 h5] h1 h2 h3 h4 h5
    by (simp add: queued_config)
qed

theorem sync_all_posted_clears_pending_only_witness:
  "online sample_env
   \<and> \<not> falsy (SHEETS_WEBAPP_URL (appConfig two_queued))
   \<and> postLog (appConfig two_queued) (net sample_env 0) (stored_log 1 ''a'') = None
   \<and> postLog (appConfig two_queued) (net sample_env 1) (stored_log 2 ''b'') = None
   \<and> getPendingLogs (db two_queued) = [stored_log 1 ''a'', stored_log 2 ''b'']
   \<and> getPendingLogs (db (sendPendingIfOnline sample_env two_queued)) = []
   \<and> getAllLogs (db (sendPendingIfOnline sample_env two_queued)) =
        [stored_log 1 ''a'', stored_log 2 ''b'']
   \<and> posted (sendPendingIfOnline sample_env two_queued) =
        [(stored_log 1 ''a'', True), (stored_log 2 ''b'', True)]"
proof -
  have h1: "online sample_env" by (simp add: sample_env_def)
  have h2: "\<not> falsy (SHEETS_WEBAPP_URL (appConfig two_queued))"
    by (simp add: queued_config sample_postLog)
  have h3: "postLog (appConfig two_queued) (net sample_env k) (getPendingLogs (db two_queued) ! k) = None"
    for k by (simp add: queued_config sample_env_def sample_postLog)
  have q: "getPendingLogs (db two_queued) = [stored_log 1 ''a'', stored_log 2 ''b'']"
      "getAllLogs (db two_queued) = [stored_log 1 ''a'', stored_log 2 ''b'']"
    by (simp_all add: two_queued_db getPendingLogs_def getAllLogs_def)
  have h4: "postLog (appConfig two_queued) (net sample_env 0) (stored_log 1 ''a'') = None"
      "postLog (appConfig two_queued) (net sample_env 1) (stored_log 2 ''b'') = None"
    by (simp_all add: queued_config sample_env_def sample_postLog)
  show ?thesis
    using sync_all_posted_clears_pending_only [OF h1 h2 h3] h1 h2 h4 q
    by (simp add: queued_config)
qed

text \<open>
  Claim C3. The claim: over several passes a record that was posted successfully is
  not posted again. The code: with two records queued, a pass in which the first post
  succeeds and the second fails clears nothing, and the next pass, in which both posts
  succeed, posts the first record a second time; the sink has accepted it twice.
\<close>

theorem posted_record_is_posted_again:
  "posted (sendPendingIfOnline sample_env (sendPendingIfOnline second_fails two_queued)) =
     [(stored_log 1 ''a'', True), (stored_log 2 ''b'', False),
      (stored_log 1 ''a'', True), (stored_log 2 ''b'', True)]
   \<and> length (filter (\<lambda>p. p = (stored_log 1 ''a'', True))
        (posted (sendPendingIfOnline sample_env (sendPendingIfOnline second_fails two_queued)))) = 2"
proof -
  have p1: "sendPendingIfOnline second_fails two_queued =
      two_queued\<lparr>posted := [(stored_log 1 ''a'', True), (stored_log 2 ''b'', False)]\<rparr>"
    by (simp add: sendPendingIfOnline_def two_queued_db getPendingLogs_def queued_config
        sample_postLog second_fails_def sample_env_def)
  have p2: "posted (sendPendingIfOnline sample_env
        (two_queued\<lparr>posted := [(stored_log 1 ''a'', True), (stored_log 2 ''b'', False)]\<rparr>)) =
      [(stored_log 1 ''a'', True), (stored_log 2 ''b'', False),
       (stored_log 1 ''a'', True), (stored_log 2 ''b'', True)]"
    by (simp add: sendPendingIfOnline_def two_queued_db getPendingLogs_def queued_config
        sample_postLog sample_env_def)
  have ne: "stored_log 1 ''a'' \<noteq> stored_log 2 ''b''"
    by (simp add: stored_log_def sample_log_def)
  show ?thesis unfolding p1 p2 using ne by simp
qed

theorem endSession_idle_is_silent_noop_witness:
  "currentSession idle_app = None
   \<and> endSession sample_platform sample_env None idle_app = (None, idle_app)
   \<and> currentSession driving_app = Some driving_session
   \<and> fst (endSession sample_platform sample_env None driving_app) = None
   \<and> currentSession (snd (endSession sample_platform sample_env None driving_app)) = None
   \<and> (\<exists>r. getAllLogs (db (snd (endSession sample_platform sample_env None driving_app))) = [r])"
proof -
  have idle: "currentSession idle_app = None" by (simp add: idle_app_def)
  have logs0: "getAllLogs (db driving_app) = []"
    by (simp add: driving_app_def sample_env_def idle_app_def startSession_def Let_def
        getAllLogs_def empty_store_def)
  show ?thesis
    using endSession_idle_is_silent_noop [of idle_app sample_platform sample_env None]
      endSession_idle_is_silent_noop [of driving_app sample_platform sample_env None]
      idle logs0 driving_app_session
    by simp
qed

text \<open>
  Claim C4, as stated, fails: called without a session, \<^verbatim>\<open>endSession\<close> signals no error.
  What it signals is what it signals when it ends a session.
\<close>

theorem endSession_idle_signals_no_error:
  "currentSession idle_app = None
   \<and> fst (endSession sample_platform sample_env None idle_app) = None
   \<and> fst (endSession sample_platform sample_env None idle_app)
       = fst (endSession sample_platform sample_env None driving_app)"
proof -
  have idle: "currentSession idle_app = None" by (simp add: idle_app_def)
  have "fst (endSession sample_platform sample_env None idle_app) = None"
    using idle by (simp add: endSession_def)
  moreover have "fst (endSession sample_platform sample_env None driving_app) = None"
    using endSession_active(1) [OF driving_app_session] .
  ultimately show ?thesis using idle by simp
qed

theorem handleLocationUpdate_threshold_witness:
  "currentSession driving_app = Some driving_session
   \<and> coords driving_session \<noteq> []
   \<and> computedDistance sample_platform (last (coords driving_session)) start_point = Some 0
   \<and> handleLocationUpdate sample_platform start_point driving_app = (None, driving_app)
   \<and> computedDistance sample_platform (last (coords driving_session)) far_point = Some (6371 * pi)
   \<and> handleLocationUpdate sample_platform far_point driving_app =
       (None, driving_app\<lparr>currentSession :=
          Some (driving_session\<lparr>distance := 6371 * pi, coords := [start_point, far_point]\<rparr>)\<rparr>)
   \<and> currentSession northern_app = Some northern_session
   \<and> coords northern_session \<noteq> []
   \<and> haversineDistance (last (coords northern_session)) south_point = Some (6371 * pi)
   \<and> computedDistance double_platform (last (coords northern_session)) south_point = None
   \<and> handleLocationUpdate double_platform south_point northern_app = (None, northern_app)"
proof -
  have h2: "coords driving_session \<noteq> []" by (simp add: driving_session_def)
  have l: "last (coords driving_session) = start_point" by (simp add: driving_session_def)
  have d0: "computedDistance sample_platform (last (coords driving_session)) start_point = Some 0"
    by (simp add: l computedDistance_def sample_platform_def haversineDistance_self)
  have d1: "computedDistance sample_platform (last (coords driving_session)) far_point
      = Some (6371 * pi)"
    by (simp add: l computedDistance_def sample_platform_def far_distance)
  have near: "handleLocationUpdate sample_platform start_point driving_app = (None, driving_app)"
    using handleLocationUpdate_threshold [OF driving_app_session h2, of sample_platform start_point]
      d0 by simp
  have big: "(6371 * pi) * 1000 \<ge> 50" using pi_ge_two by simp
  have far: "handleLocationUpdate sample_platform far_point driving_app =
       (None, driving_app\<lparr>currentSession :=
          Some (driving_session\<lparr>distance := 6371 * pi, coords := [start_point, far_point]\<rparr>)\<rparr>)"
    using handleLocationUpdate_threshold [OF driving_app_session h2, of sample_platform far_point]
      d1 big by (simp add: driving_session_def)
  have n2: "coords northern_session \<noteq> []" by (simp add: northern_session_def)
  have nl: "last (coords northern_session) = north_point" by (simp add: northern_session_def)
  have exact: "haversineDistance (last (coords northern_session)) south_point = Some (6371 * pi)"
    by (simp add: nl opposite_distance)
  have nan: "computedDistance double_platform (last (coords northern_session)) south_point = None"
    by (simp add: nl computedDistance_def double_platform_def north_point_def south_point_def)
  have dropped: "handleLocationUpdate double_platform south_point northern_app = (None, northern_app)"
    using handleLocationUpdate_threshold [OF northern_app_session n2, of double_platform south_point]
      nan by simp
  show ?thesis
    using driving_app_session h2 d0 d1 near far northern_app_session n2 exact nan dropped
    by blast
qed

theorem distance_never_decreases_witness:
  "currentSession driving_app = Some driving_session
   \<and> during_session (Location start_point) \<and> during_session ToggleBreak
   \<and> during_session (AddFuel (Some ''12'') (Some ''3000''))
   \<and> (\<exists>s'. currentSession (run sample_platform
               [(sample_env, Location start_point), (sample_env, ToggleBreak),
                (sample_env, AddFuel (Some ''12'') (Some ''3000''))] driving_app) = Some s'
           \<and> distance driving_session \<le> distance s')"
proof -
  have h2: "\<forall>x\<in>set [(sample_env, Location start_point), (sample_env, ToggleBreak),
                 (sample_env, AddFuel (Some ''12'') (Some ''3000''))]. during_session (snd x)"
    by simp
  show ?thesis
    using distance_never_decreases [OF driving_app_session h2, of sample_platform]
      driving_app_session
    by simp
qed

theorem toggleBreak_two_and_three_calls_witness:
  "currentSession driving_app = Some driving_session
   \<and> breaks driving_session = []
   \<and> now sample_env \<le> now (sample_env\<lparr>now := 2000\<rparr>)
   \<and> (\<exists>s2 s3 b1 b2 t.
         currentSession (snd (toggleBreak (sample_env\<lparr>now := 2000\<rparr>)
            (snd (toggleBreak sample_env driving_app)))) = Some s2
       \<and> breaks s2 = [b1] \<and> end' b1 = Some t \<and> start b1 \<le> t
       \<and> start b1 = 1000 \<and> t = 2000
       \<and> currentSession (snd (toggleBreak (sample_env\<lparr>now := 3000\<rparr>)
            (snd (toggleBreak (sample_env\<lparr>now := 2000\<rparr>)
               (snd (toggleBreak sample_env driving_app)))))) = Some s3
       \<and> breaks s3 = [b1, b2] \<and> end' b2 = None \<and> start b2 = 3000)"
proof -
  have h2: "breaks driving_session = []" by (simp add: driving_session_def)
  have h3: "now sample_env \<le> now (sample_env\<lparr>now := 2000\<rparr>)" by (simp add: sample_env_def)
  have n: "now sample_env = 1000" by (simp add: sample_env_def)
  show ?thesis
    using toggleBreak_two_and_three_calls [OF driving_app_session h2 h3,
        of "sample_env\<lparr>now := 3000\<rparr>"] driving_app_session h2 h3 n
    by simp
qed

theorem addFuel_validates_and_appends_witness:
  "currentSession driving_app = Some driving_session
   \<and> addFuel sample_platform sample_env (Some ''abc'') None driving_app
       = (Some ValidationError, driving_app)
   \<and> addFuel sample_platform sample_env (Some ''0'') None driving_app
       = (Some ValidationError, driving_app)
   \<and> (\<exists>ev. addFuel sample_platform sample_env (Some ''12'') (Some ''-3'') driving_app
              = (None, driving_app\<lparr>currentSession :=
                   Some (driving_session\<lparr>fuelLogs := fuelLogs driving_session @ [ev]\<rparr>)\<rparr>)
          \<and> amount ev = 12 \<and> cost ev = Some 0)"
proof -
  have pf: "parseFloat sample_platform ''abc'' = None"
      "parseFloat sample_platform ''0'' = Some 0"
      "parseFloat sample_platform ''12'' = Some 12"
      "parseFloat sample_platform ''-3'' = Some (- 3)"
    by (simp_all add: sample_platform_def)
  have a: "addFuel sample_platform sample_env (Some ''abc'') None driving_app
       = (Some ValidationError, driving_app)"
    using addFuel_validates_and_appends [OF driving_app_session, of "Some ''abc''" "''abc''"
        sample_platform sample_env None] pf by simp
  have b: "addFuel sample_platform sample_env (Some ''0'') None driving_app
       = (Some ValidationError, driving_app)"
    using addFuel_validates_and_appends [OF driving_app_session, of "Some ''0''" "''0''"
        sample_platform sample_env None] pf by simp
  have c: "\<exists>ev. addFuel sample_platform sample_env (Some ''12'') (Some ''-3'') driving_app
              = (None, driving_app\<lparr>currentSession :=
                   Some (driving_session\<lparr>fuelLogs := fuelLogs driving_session @ [ev]\<rparr>)\<rparr>)
          \<and> amount ev = 12 \<and> cost ev = Some 0"
    using addFuel_validates_and_appends [OF driving_app_session, of "Some ''12''" "''12''"
        sample_platform sample_env "Some ''-3''"] pf by auto
  show ?thesis using a b c driving_app_session by blast
qed

lemma discarded_update:
  "run sample_platform [(sample_env, Location start_point)] driving_app = driving_app"
  by (simp add: handleLocationUpdate_def computedDistance_def sample_platform_def
      driving_app_session driving_session_def haversineDistance_self)

theorem endSession_distance_without_final_leg_witness:
  "currentSession idle_app = None
   \<and> during_session (Location start_point)
   \<and> currentSession (run sample_platform [(sample_env, Location start_point)]
         (snd (startSession sample_env idle_app))) = Some driving_session
   \<and> coords (snd (arrive arriving_far driving_session)) = [start_point, far_point]
   \<and> legKm (last (coords driving_session)) (fst (arrive arriving_far driving_session)) = 6371 * pi
   \<and> (\<exists>r. getAllLogs (db (snd (endSession sample_platform arriving_far None
                 (run sample_platform [(sample_env, Location start_point)]
                    (snd (startSession sample_env idle_app)))))) =
             getAllLogs (db (run sample_platform [(sample_env, Location start_point)]
                    (snd (startSession sample_env idle_app)))) @ [r]
          \<and> distanceKm r = 0)"
proof -
  have h1: "currentSession idle_app = None" by (simp add: idle_app_def)
  have h2: "\<forall>x\<in>set [(sample_env, Location start_point)]. during_session (snd x)" by simp
  have h3: "currentSession (run sample_platform [(sample_env, Location start_point)]
         (snd (startSession sample_env idle_app))) = Some driving_session"
    using discarded_update driving_app_session by (simp add: driving_app_def)
  have arr: "fst (arrive arriving_far driving_session) = far_point"
    by (simp add: arrive_def Let_def arriving_far_def sample_env_def far_point_def)
  have tr: "coords driving_session = [start_point]" by (simp add: driving_session_def)
  have z: "round3 (trackLength (coords driving_session)) = 0"
    by (simp add: tr round3_def)
  have leg: "legKm start_point far_point = 6371 * pi"
    by (simp add: legKm_def far_distance)
  show ?thesis
    using endSession_distance_without_final_leg [OF h1 h2 h3, of arriving_far None]
      h1 h3 arr tr z leg
    by simp
qed

end
